theory Spec2Isabelle
  imports Complex_Main
begin

section \<open>Rotation sequences and direction cosine matrices\<close>

text \<open>
  A shallow embedding of the notebook \<^verbatim>\<open>rotationSequence.ipynb\<close>: the numeric pipeline
  (\<^verbatim>\<open>create_rotation_matrix\<close>, \<^verbatim>\<open>euler_to_dcm\<close>) and the symbolic pipeline
  (\<^verbatim>\<open>get_symbolic_dcm\<close> with its nested \<^verbatim>\<open>create_symbolic_rotation\<close>, and the
  transpose taken in \<^verbatim>\<open>display_symbolic_dcm\<close>).

  Modelling decisions:
  \<^item> An axis identifier is a Python integer: \<open>int\<close>.
  \<^item> A NumPy scalar is a real number and \<^verbatim>\<open>np.cos\<close>, \<^verbatim>\<open>np.sin\<close> are the real
    cosine and sine. The rounding of 64-bit floating point is not part of this model.
  \<^item> Where rounding decides a statement, the numeric pipeline is taken a second time
    over binary64 (\<open>create_rotation_matrix64\<close>, \<open>euler_to_dcm64\<close>): every product,
    sum, cosine and sine returns the double nearest to the exact result.
  \<^item> A SymPy scalar is a term of the datatype \<open>expr\<close>. SymPy rewrites every sum and
    product into its own canonical form; that form is not modelled, so symbolic
    matrices are compared through their value \<open>eval\<close> under an assignment of the
    symbols, unless they are built without any arithmetic.
  \<^item> A 3x3 array is the list of its three rows, as written in the source.
  \<^item> A raised exception is the left injection of a sum type; a function that falls
    off its last branch returns Python's \<^verbatim>\<open>None\<close>, here \<open>None\<close>.
\<close>

subsection \<open>Errors\<close>

datatype error =
    ValueError string
  | KeyError int
  | TypeError

subsection \<open>Matrices\<close>

type_synonym 'a matrix = "'a list list"

text \<open>\<^verbatim>\<open>np.eye(3)\<close> and \<^verbatim>\<open>sp.eye(3)\<close>.\<close>

definition eye3 :: "'a::{zero,one} matrix" where
  "eye3 = [[1, 0, 0], [0, 1, 0], [0, 0, 1]]"

text \<open>The sum of the products of a row with a column.\<close>

definition inner :: "'a::{zero,plus,times} list \<Rightarrow> 'a list \<Rightarrow> 'a" where
  "inner u v = foldr (+) (map2 (*) u v) 0"

text \<open>
  \<^verbatim>\<open>np.dot(A, B)\<close> on two-dimensional arrays and \<^verbatim>\<open>A * B\<close> on SymPy matrices: the
  matrix product, entry \<open>(i, j)\<close> being row \<open>i\<close> of \<open>A\<close> times column \<open>j\<close> of \<open>B\<close>.
\<close>

definition dot :: "'a::{zero,plus,times} matrix \<Rightarrow> 'a matrix \<Rightarrow> 'a matrix" where
  "dot A B = map (\<lambda>row. map (inner row) (transpose B)) A"

definition is3x3 :: "'a matrix \<Rightarrow> bool" where
  "is3x3 A = (length A = 3 \<and> list_all (\<lambda>row. length row = 3) A)"

subsection \<open>The numeric pipeline\<close>

definition create_rotation_matrix :: "int \<Rightarrow> real \<Rightarrow> error + real matrix" where
  "create_rotation_matrix axis angle =
     (let c = cos angle;
          s = sin angle
      in if axis = 1 then
           Inr [[1, 0, 0],
                [0, c, - s],
                [0, s, c]]
         else if axis = 2 then
           Inr [[c, 0, s],
                [0, 1, 0],
                [- s, 0, c]]
         else if axis = 3 then
           Inr [[c, - s, 0],
                [s, c, 0],
                [0, 0, 1]]
         else Inl (ValueError ''Axis must be 1, 2, or 3''))"

text \<open>The loop of \<^verbatim>\<open>euler_to_dcm\<close> over \<^verbatim>\<open>zip(sequence, angles)\<close>; \<open>dcm\<close> is the accumulator.\<close>

fun euler_loop :: "real matrix \<Rightarrow> (int \<times> real) list \<Rightarrow> error + real matrix" where
  "euler_loop dcm [] = Inr dcm"
| "euler_loop dcm ((axis, angle) # rest) =
     (case create_rotation_matrix axis angle of
        Inl e \<Rightarrow> Inl e
      | Inr rotation_matrix \<Rightarrow> euler_loop (dot dcm rotation_matrix) rest)"

definition euler_to_dcm :: "int list \<Rightarrow> real list \<Rightarrow> error + real matrix" where
  "euler_to_dcm sequence angles =
     (if length sequence \<noteq> length angles then
        Inl (ValueError ''Number of axes must match number of angles'')
      else euler_loop eye3 (zip sequence angles))"

text \<open>\<^verbatim>\<open>np.radians\<close>: degrees to radians.\<close>

definition radians :: "real \<Rightarrow> real" where
  "radians d = d * pi / 180"

subsection \<open>The numeric pipeline in binary64\<close>

text \<open>
  The integer nearest to a real number, a tie going to the even one.
\<close>

definition round_half_even :: "real \<Rightarrow> int" where
  "round_half_even y =
     (let n = \<lfloor>y\<rfloor>;
          d = y - of_int n
      in if d < 1 / 2 then n
         else if 1 / 2 < d then n + 1
         else if even n then n else n + 1)"

text \<open>
  The double nearest to a real number: with \<open>e\<close> the binary exponent of \<open>x\<close>, the
  significand \<open>\<bar>x\<bar> * 2 powi (52 - e)\<close> lies in \<open>[2^52, 2^53)\<close> and is rounded to an integer,
  ties to even. The limits of the exponent range (overflow, subnormal numbers) are left
  out: the values computed below stay far from them.
\<close>

definition float64 :: "real \<Rightarrow> real" where
  "float64 x =
     (if x = 0 then 0
      else let e = \<lfloor>log 2 \<bar>x\<bar>\<rfloor>
           in sgn x * (of_int (round_half_even (\<bar>x\<bar> * 2 powi (52 - e))) * 2 powi (e - 52)))"

text \<open>
  A NumPy scalar of type float64. Addition and multiplication round their exact result;
  negation is exact. With these operations \<open>dot\<close> is the matrix product in which every
  product and every partial sum is rounded on its own.
\<close>

datatype f64 = F64 real

instantiation f64 :: "{zero,one,plus,times,uminus}"
begin

definition zero_f64 :: f64 where "zero_f64 = F64 0"
definition one_f64 :: f64 where "one_f64 = F64 1"

fun plus_f64 :: "f64 \<Rightarrow> f64 \<Rightarrow> f64" where
  "plus_f64 (F64 a) (F64 b) = F64 (float64 (a + b))"

fun times_f64 :: "f64 \<Rightarrow> f64 \<Rightarrow> f64" where
  "times_f64 (F64 a) (F64 b) = F64 (float64 (a * b))"

fun uminus_f64 :: "f64 \<Rightarrow> f64" where
  "uminus_f64 (F64 a) = F64 (- a)"

instance ..

end






subsection \<open>The symbolic pipeline\<close>

datatype expr =
    Const int
  | Symbol string
  | Cos expr
  | Sin expr
  | Neg expr
  | Add expr expr
  | Mul expr expr

instantiation expr :: "{zero,one,plus,times,uminus}"
begin

definition zero_expr :: expr where "zero_expr = Const 0"
definition one_expr :: expr where "one_expr = Const 1"
definition plus_expr :: "expr \<Rightarrow> expr \<Rightarrow> expr" where "plus_expr a b = Add a b"
definition times_expr :: "expr \<Rightarrow> expr \<Rightarrow> expr" where "times_expr a b = Mul a b"
definition uminus_expr :: "expr \<Rightarrow> expr" where "uminus_expr a = Neg a"

instance ..

end

text \<open>The value of an expression when each symbol stands for a real number.\<close>

fun eval :: "(string \<Rightarrow> real) \<Rightarrow> expr \<Rightarrow> real" where
  "eval env (Const k) = of_int k"
| "eval env (Symbol x) = env x"
| "eval env (Cos a) = cos (eval env a)"
| "eval env (Sin a) = sin (eval env a)"
| "eval env (Neg a) = - eval env a"
| "eval env (Add a b) = eval env a + eval env b"
| "eval env (Mul a b) = eval env a * eval env b"

definition eval_matrix :: "(string \<Rightarrow> real) \<Rightarrow> expr matrix \<Rightarrow> real matrix" where
  "eval_matrix env A = map (map (eval env)) A"

text \<open>\<^verbatim>\<open>phi, theta, psi = sp.symbols('\\phi \\theta \\psi')\<close>\<close>

definition phi :: expr where "phi = Symbol (CHR 0x5C # ''phi'')"
definition theta :: expr where "theta = Symbol (CHR 0x5C # ''theta'')"
definition psi :: expr where "psi = Symbol (CHR 0x5C # ''psi'')"

definition angle_map :: "int \<rightharpoonup> expr" where
  "angle_map = [1 \<mapsto> phi, 2 \<mapsto> theta, 3 \<mapsto> psi]"

text \<open>
  \<^verbatim>\<open>[angle_map[axis] for axis in sequence]\<close>: a key that is not in the dictionary raises
  \<^verbatim>\<open>KeyError\<close> at the first such axis.
\<close>

fun symbolic_angles :: "int list \<Rightarrow> error + expr list" where
  "symbolic_angles [] = Inr []"
| "symbolic_angles (axis # rest) =
     (case angle_map axis of
        None \<Rightarrow> Inl (KeyError axis)
      | Some angle \<Rightarrow>
          (case symbolic_angles rest of
             Inl e \<Rightarrow> Inl e
           | Inr angles \<Rightarrow> Inr (angle # angles)))"

text \<open>
  The nested builder has no \<^verbatim>\<open>else\<close> branch: for any other axis it returns \<^verbatim>\<open>None\<close>.
\<close>

definition create_symbolic_rotation :: "int \<Rightarrow> expr \<Rightarrow> expr matrix option" where
  "create_symbolic_rotation axis angle =
     (let c = Cos angle;
          s = Sin angle
      in if axis = 1 then
           Some [[1, 0, 0],
                 [0, c, - s],
                 [0, s, c]]
         else if axis = 2 then
           Some [[c, 0, s],
                 [0, 1, 0],
                 [- s, 0, c]]
         else if axis = 3 then
           Some [[c, - s, 0],
                 [s, c, 0],
                 [0, 0, 1]]
         else None)"

text \<open>
  The loop of \<^verbatim>\<open>get_symbolic_dcm\<close>. Multiplying a SymPy matrix by \<^verbatim>\<open>None\<close> raises
  \<^verbatim>\<open>TypeError\<close>.
\<close>

fun symbolic_loop :: "expr matrix \<Rightarrow> (int \<times> expr) list \<Rightarrow> error + expr matrix" where
  "symbolic_loop dcm [] = Inr dcm"
| "symbolic_loop dcm ((axis, angle) # rest) =
     (case create_symbolic_rotation axis angle of
        None \<Rightarrow> Inl TypeError
      | Some rot_matrix \<Rightarrow> symbolic_loop (dot dcm rot_matrix) rest)"

definition get_symbolic_dcm :: "int list \<Rightarrow> error + expr matrix" where
  "get_symbolic_dcm sequence =
     (case symbolic_angles sequence of
        Inl e \<Rightarrow> Inl e
      | Inr angles \<Rightarrow> symbolic_loop eye3 (zip sequence angles))"


subsection \<open>Orthogonal matrices\<close>

definition orthogonal :: "real matrix \<Rightarrow> bool" where
  "orthogonal A = (is3x3 A \<and> dot A (transpose A) = eye3)"

subsection \<open>The composer as the specification describes it\<close>

text \<open>
  Section 4.1 of the specification: the matrix of an axis in \<open>{1, 2, 3}\<close>, for any
  scalar type with a cosine \<open>cs\<close> and a sine \<open>sn\<close>. It says nothing about any other
  axis; the last branch is only ever used for axis 3.
\<close>

definition build ::
  "('a \<Rightarrow> 'a) \<Rightarrow> ('a \<Rightarrow> 'a) \<Rightarrow> int \<Rightarrow> 'a \<Rightarrow> 'a::{zero,one,uminus} matrix" where
  "build cs sn axis angle =
     (if axis = 1 then [[1, 0, 0], [0, cs angle, - sn angle], [0, sn angle, cs angle]]
      else if axis = 2 then [[cs angle, 0, sn angle], [0, 1, 0], [- sn angle, 0, cs angle]]
      else [[cs angle, - sn angle, 0], [sn angle, cs angle, 0], [0, 0, 1]])"

text \<open>
  Section 4.2 of the specification: start from the identity and, for each pair in
  sequence order, right-multiply the accumulator by the elementary matrix of the pair.
\<close>

definition compose ::
  "('a \<Rightarrow> 'a) \<Rightarrow> ('a \<Rightarrow> 'a) \<Rightarrow> (int \<times> 'a) list \<Rightarrow>
   'a::{zero,one,plus,times,uminus} matrix" where
  "compose cs sn pairs =
     foldl (\<lambda>accumulator (axis, angle). dot accumulator (build cs sn axis angle)) eye3 pairs"

text \<open>
  Agreement to six decimal places, entry by entry: each entry of \<open>A\<close> rounds to the
  entry of \<open>B\<close>, which has six decimals.
\<close>

definition agree6 :: "real matrix \<Rightarrow> real matrix \<Rightarrow> bool" where
  "agree6 A B = list_all2 (list_all2 (\<lambda>x y. \<bar>x - y\<bar> < 5 / 10 ^ 7)) A B"

section \<open>Matrix algebra on 3x3 matrices\<close>

lemma is3x3_explicit:
  assumes "is3x3 A"
  obtains a b c d e f g h i where "A = [[a, b, c], [d, e, f], [g, h, i]]"
  using assms by (auto simp: is3x3_def length_Suc_conv numeral_3_eq_3)

lemma is3x3_rows [simp]: "is3x3 [[a, b, c], [d, e, f], [g, h, i]]"
  by (simp add: is3x3_def)

lemma transpose_rows [simp]:
  "transpose [[a, b, c], [d, e, f], [g, h, i]] = [[a, d, g], [b, e, h], [c, f, i]]"
  by simp

lemma dot_rows:
  fixes a :: "'a::comm_ring_1"
  shows "dot [[a, b, c], [d, e, f], [g, h, i]] [[a', b', c'], [d', e', f'], [g', h', i']] =
    [[a * a' + b * d' + c * g', a * b' + b * e' + c * h', a * c' + b * f' + c * i'],
     [d * a' + e * d' + f * g', d * b' + e * e' + f * h', d * c' + e * f' + f * i'],
     [g * a' + h * d' + i * g', g * b' + h * e' + i * h', g * c' + h * f' + i * i']]"
  by (simp add: dot_def inner_def add.assoc)

lemma is3x3_eye3 [simp]: "is3x3 eye3"
  by (simp add: eye3_def)

lemma is3x3_dot: 
  fixes A :: "'a::comm_ring_1 matrix"
  shows "is3x3 A \<Longrightarrow> is3x3 B \<Longrightarrow> is3x3 (dot A B)"
  by (elim is3x3_explicit) (simp add: dot_rows)

lemma is3x3_transpose: "is3x3 A \<Longrightarrow> is3x3 (transpose A)"
  by (elim is3x3_explicit) simp

lemma dot_eye3_left:
  fixes A :: "'a::comm_ring_1 matrix"
  shows "is3x3 A \<Longrightarrow> dot eye3 A = A"
  by (elim is3x3_explicit) (simp add: eye3_def dot_rows)


lemma dot_assoc:
  fixes A :: "'a::comm_ring_1 matrix"
  shows "is3x3 A \<Longrightarrow> is3x3 B \<Longrightarrow> is3x3 C \<Longrightarrow> dot (dot A B) C = dot A (dot B C)"
  by (elim is3x3_explicit) (simp add: dot_rows algebra_simps)

lemma transpose_dot:
  fixes A :: "'a::comm_ring_1 matrix"
  shows "is3x3 A \<Longrightarrow> is3x3 B \<Longrightarrow> transpose (dot A B) = dot (transpose B) (transpose A)"
  by (elim is3x3_explicit) (simp add: dot_rows algebra_simps)

lemma transpose3_involutive: "is3x3 A \<Longrightarrow> transpose (transpose A) = A"
  by (elim is3x3_explicit) simp


lemma eval_inner: "eval env (inner u v) = inner (map (eval env) u) (map (eval env) v)"
  by (induction u v rule: list_induct2')
     (simp_all add: inner_def zero_expr_def plus_expr_def times_expr_def)

lemma eval_matrix_dot: "eval_matrix env (dot A B) = dot (eval_matrix env A) (eval_matrix env B)"
  by (simp add: eval_matrix_def dot_def transpose_map_map eval_inner)

lemma eval_matrix_transpose: "eval_matrix env (transpose A) = transpose (eval_matrix env A)"
  by (simp add: eval_matrix_def transpose_map_map)

lemma eval_matrix_eye3: "eval_matrix env eye3 = eye3"
  by (simp add: eval_matrix_def eye3_def zero_expr_def one_expr_def)

lemma is3x3_build [simp]: "is3x3 (build cs sn axis angle)"
  by (simp add: build_def)

lemma create_rotation_matrix_build:
  "axis \<in> {1, 2, 3} \<Longrightarrow> create_rotation_matrix axis angle = Inr (build cos sin axis angle)"
  by (auto simp: create_rotation_matrix_def build_def Let_def)

lemma create_symbolic_rotation_build:
  "axis \<in> {1, 2, 3} \<Longrightarrow> create_symbolic_rotation axis angle = Some (build Cos Sin axis angle)"
  by (auto simp: create_symbolic_rotation_def build_def Let_def)

lemma euler_loop_foldl:
  "fst ` set pairs \<subseteq> {1, 2, 3} \<Longrightarrow>
   euler_loop dcm pairs =
     Inr (foldl (\<lambda>accumulator (axis, angle). dot accumulator (build cos sin axis angle)) dcm pairs)"
proof (induction pairs arbitrary: dcm)
  case Nil
  show ?case by simp
next
  case (Cons p pairs)
  obtain axis angle where p: "p = (axis, angle)" by (cases p)
  from Cons.prems p have "axis \<in> {1, 2, 3}" and "fst ` set pairs \<subseteq> {1, 2, 3}"
    by auto
  then show ?case
    using Cons.IH [of "dot dcm (build cos sin axis angle)"]
    by (simp add: p create_rotation_matrix_build)
qed

lemma symbolic_loop_foldl:
  "fst ` set pairs \<subseteq> {1, 2, 3} \<Longrightarrow>
   symbolic_loop dcm pairs =
     Inr (foldl (\<lambda>accumulator (axis, angle). dot accumulator (build Cos Sin axis angle)) dcm pairs)"
proof (induction pairs arbitrary: dcm)
  case Nil
  show ?case by simp
next
  case (Cons p pairs)
  obtain axis angle where p: "p = (axis, angle)" by (cases p)
  from Cons.prems p have "axis \<in> {1, 2, 3}" and "fst ` set pairs \<subseteq> {1, 2, 3}"
    by auto
  then show ?case
    using Cons.IH [of "dot dcm (build Cos Sin axis angle)"]
    by (simp add: p create_symbolic_rotation_build)
qed

lemma fst_set_zip: "fst ` set (zip xs ys) \<subseteq> set xs"
  by (auto dest: set_zip_leftD)

lemma euler_to_dcm_compose:
  "set sequence \<subseteq> {1, 2, 3} \<Longrightarrow> length sequence = length angles \<Longrightarrow>
   euler_to_dcm sequence angles = Inr (compose cos sin (zip sequence angles))"
  using fst_set_zip [of sequence angles]
  by (simp add: euler_to_dcm_def compose_def euler_loop_foldl)

lemma angle_map_simps:
  "angle_map 1 = Some phi" "angle_map 2 = Some theta" "angle_map 3 = Some psi"
  by (simp_all add: angle_map_def)

lemma angle_map_None: "axis \<notin> {1, 2, 3} \<Longrightarrow> angle_map axis = None"
  by (simp add: angle_map_def)

lemma symbolic_angles_valid:
  "set sequence \<subseteq> {1, 2, 3} \<Longrightarrow>
   \<exists>angles. symbolic_angles sequence = Inr angles \<and> length angles = length sequence"
  by (induction sequence) (auto simp: angle_map_simps)

lemma symbolic_angles_related:
  "symbolic_angles sequence = Inr angles \<Longrightarrow>
   list_all2 (\<lambda>axis angle. angle_map axis = Some angle) sequence angles"
  by (induction sequence arbitrary: angles) (auto split: option.splits sum.splits)

lemma get_symbolic_dcm_compose:
  "symbolic_angles sequence = Inr angles \<Longrightarrow> set sequence \<subseteq> {1, 2, 3} \<Longrightarrow>
   get_symbolic_dcm sequence = Inr (compose Cos Sin (zip sequence angles))"
  using fst_set_zip [of sequence angles]
  by (simp add: get_symbolic_dcm_def compose_def symbolic_loop_foldl)


lemma is3x3_foldl_dot:
  fixes A :: "'a::comm_ring_1 matrix"
  shows "is3x3 A \<Longrightarrow> is3x3 (foldl (\<lambda>accumulator (axis, angle). dot accumulator (build cs sn axis angle)) A pairs)"
  by (induction pairs arbitrary: A) (auto simp: is3x3_dot)

lemma is3x3_compose_real [simp]: "is3x3 (compose cos sin (pairs :: (int \<times> real) list))"
  by (simp add: compose_def is3x3_foldl_dot)

lemma compose_Nil: "compose cs sn [] = eye3"
  by (simp add: compose_def)

lemma compose_snoc:
  "compose cs sn (pairs @ [(axis, angle)]) = dot (compose cs sn pairs) (build cs sn axis angle)"
  by (simp add: compose_def)



lemma sin_sin_cos_cos: "sin x * sin x + cos x * cos x = (1::real)"
  using sin_cos_squared_add3 [of x] by (simp add: add.commute)

lemma orthogonal_build: "orthogonal (build cos sin axis angle)"
  by (simp add: orthogonal_def build_def dot_rows eye3_def sin_cos_squared_add3 sin_sin_cos_cos)

lemma orthogonal_eye3: "orthogonal eye3"
  by (simp add: orthogonal_def eye3_def dot_rows)

lemma orthogonal_dot:
  assumes "orthogonal A" and "orthogonal B"
  shows "orthogonal (dot A B)"
proof -
  from assms have A: "is3x3 A" and B: "is3x3 B"
    and AA: "dot A (transpose A) = eye3" and BB: "dot B (transpose B) = eye3"
    by (simp_all add: orthogonal_def)
  have At: "is3x3 (transpose A)" and Bt: "is3x3 (transpose B)"
    using A B by (simp_all add: is3x3_transpose)
  have "dot (dot A B) (transpose (dot A B)) = dot (dot A B) (dot (transpose B) (transpose A))"
    using A B by (simp add: transpose_dot)
  also have "\<dots> = dot A (dot B (dot (transpose B) (transpose A)))"
    using A B At Bt by (simp add: dot_assoc is3x3_dot)
  also have "\<dots> = dot A (dot (dot B (transpose B)) (transpose A))"
    using B At Bt by (simp add: dot_assoc)
  also have "\<dots> = eye3"
    using At by (simp add: BB AA dot_eye3_left)
  finally show ?thesis
    using A B by (simp add: orthogonal_def is3x3_dot)
qed

lemma orthogonal_compose: "orthogonal (compose cos sin pairs)"
proof (induction pairs rule: rev_induct)
  case Nil
  show ?case by (simp add: compose_Nil orthogonal_eye3)
next
  case (snoc p pairs)
  obtain axis angle where p: "p = (axis, angle)" by (cases p)
  show ?case
    using snoc by (simp add: p compose_snoc orthogonal_dot orthogonal_build)
qed



lemma build_zero: "axis \<in> {1, 2, 3} \<Longrightarrow> build cos sin axis (0::real) = eye3"
  by (auto simp: build_def eye3_def)

lemma compose_zero:
  "fst ` set pairs \<subseteq> {1, 2, 3} \<Longrightarrow> snd ` set pairs \<subseteq> {0} \<Longrightarrow> compose cos sin pairs = (eye3 :: real matrix)"
proof (induction pairs rule: rev_induct)
  case Nil
  show ?case by (simp add: compose_Nil)
next
  case (snoc p pairs)
  obtain axis angle where p: "p = (axis, angle)" by (cases p)
  from snoc.prems p have "axis \<in> {1, 2, 3}" "angle = 0" by auto
  with snoc show ?case
    by (simp add: p compose_snoc build_zero dot_eye3_left)
qed

lemma eval_matrix_build:
  "eval_matrix env (build Cos Sin axis angle) = build cos sin axis (eval env angle)"
  by (simp add: eval_matrix_def build_def zero_expr_def one_expr_def uminus_expr_def)

lemma eval_matrix_foldl:
  "eval_matrix env (foldl (\<lambda>accumulator (axis, angle). dot accumulator (build Cos Sin axis angle)) A pairs) =
   foldl (\<lambda>accumulator (axis, angle). dot accumulator (build cos sin axis angle)) (eval_matrix env A)
     (map (\<lambda>(axis, angle). (axis, eval env angle)) pairs)"
  by (induction pairs arbitrary: A) (auto simp: eval_matrix_dot eval_matrix_build)

lemma eval_matrix_compose:
  "eval_matrix env (compose Cos Sin pairs) =
   compose cos sin (map (\<lambda>(axis, angle). (axis, eval env angle)) pairs)"
  by (simp add: compose_def eval_matrix_foldl eval_matrix_eye3)






lemma negate_zip:
  "map (\<lambda>(axis, angle). (axis, - angle)) (zip sequence angles) = zip sequence (map uminus angles)"
  by (simp add: zip_map2 case_prod_unfold)

lemma list_all2_functional:
  assumes "list_all2 (\<lambda>axis angle. angle_map axis = Some angle) sequence angles"
    and "i < length sequence" and "j < length sequence" and "sequence ! i = sequence ! j"
  shows "angles ! i = angles ! j"
proof -
  have "angle_map (sequence ! i) = Some (angles ! i)"
    using list_all2_nthD [OF assms(1) assms(2)] .
  moreover have "angle_map (sequence ! j) = Some (angles ! j)"
    using list_all2_nthD [OF assms(1) assms(3)] .
  ultimately show ?thesis
    using assms(4) by simp
qed

lemma numeric_builder_invalid_axis:
  "axis \<notin> {1, 2, 3} \<Longrightarrow>
   create_rotation_matrix axis angle = Inl (ValueError ''Axis must be 1, 2, or 3'')"
  by (simp add: create_rotation_matrix_def)

lemma symbolic_builder_None:
  "axis \<notin> {1, 2, 3} \<Longrightarrow> create_symbolic_rotation axis angle = None"
  by (simp add: create_symbolic_rotation_def)

lemma get_symbolic_dcm_KeyError:
  "axis \<notin> {1, 2, 3} \<Longrightarrow> get_symbolic_dcm (axis # rest) = Inl (KeyError axis)"
  by (simp add: get_symbolic_dcm_def angle_map_None)

lemma symbolic_angles_KeyError:
  "set before \<subseteq> {1, 2, 3} \<Longrightarrow> axis \<notin> {1, 2, 3} \<Longrightarrow>
   symbolic_angles (before @ axis # rest) = Inl (KeyError axis)"
  by (induction before) (auto simp: angle_map_simps angle_map_None)

lemma get_symbolic_dcm_first_invalid:
  "set before \<subseteq> {1, 2, 3} \<Longrightarrow> axis \<notin> {1, 2, 3} \<Longrightarrow>
   get_symbolic_dcm (before @ axis # rest) = Inl (KeyError axis)"
  by (simp add: get_symbolic_dcm_def symbolic_angles_KeyError)

lemma get_symbolic_dcm_not_TypeError: "get_symbolic_dcm sequence \<noteq> Inl TypeError"
proof (cases "set sequence \<subseteq> {1, 2, 3}")
  case True
  then obtain angles where "symbolic_angles sequence = Inr angles"
    using symbolic_angles_valid [of sequence] by blast
  with True show ?thesis
    by (simp add: get_symbolic_dcm_compose)
next
  case False
  then have "\<exists>axis \<in> set sequence. axis \<notin> {1, 2, 3}"
    by blast
  then obtain before axis rest where s: "sequence = before @ axis # rest"
    and a: "axis \<notin> {1, 2, 3}" and b: "\<forall>x \<in> set before. \<not> x \<notin> {1, 2, 3}"
    by (auto dest!: split_list_first_prop)
  from b have "set before \<subseteq> {1, 2, 3}"
    by blast
  with a show ?thesis
    by (simp add: s get_symbolic_dcm_first_invalid)
qed

section \<open>The elementary rotation builder\<close>

text \<open>
  C1. For every angle, the numeric builder and the symbolic builder return exactly the
  matrix of the axis: axis 1 gives [[1,0,0],[0,cos,-sin],[0,sin,cos]], axis 2 gives
  [[cos,0,sin],[0,1,0],[-sin,0,cos]] and axis 3 gives [[cos,-sin,0],[sin,cos,0],[0,0,1]].
\<close>

theorem builder_matrices:
  "create_rotation_matrix 1 angle =
     Inr [[1, 0, 0], [0, cos angle, - sin angle], [0, sin angle, cos angle]]
   \<and> create_rotation_matrix 2 angle =
     Inr [[cos angle, 0, sin angle], [0, 1, 0], [- sin angle, 0, cos angle]]
   \<and> create_rotation_matrix 3 angle =
     Inr [[cos angle, - sin angle, 0], [sin angle, cos angle, 0], [0, 0, 1]]
   \<and> create_symbolic_rotation 1 a =
     Some [[1, 0, 0], [0, Cos a, - Sin a], [0, Sin a, Cos a]]
   \<and> create_symbolic_rotation 2 a =
     Some [[Cos a, 0, Sin a], [0, 1, 0], [- Sin a, 0, Cos a]]
   \<and> create_symbolic_rotation 3 a =
     Some [[Cos a, - Sin a, 0], [Sin a, Cos a, 0], [0, 0, 1]]"
  by (simp add: create_rotation_matrix_def create_symbolic_rotation_def Let_def)

text \<open>
  C3, as stated, fails for the symbolic pipeline: with the axis 4 \<^verbatim>\<open>get_symbolic_dcm\<close>
  does fail at once, but with the \<^verbatim>\<open>KeyError\<close> that the dictionary of angle symbols raises,
  not with the error of the builder.
\<close>

theorem symbolic_axis_4_counterexample:
  "get_symbolic_dcm [4] = Inl (KeyError 4)
   \<and> get_symbolic_dcm [4] \<noteq> Inl (ValueError ''Axis must be 1, 2, or 3'')"
  by (simp add: get_symbolic_dcm_def angle_map_def)

text \<open>
  C3, amended. For every axis outside {1,2,3} and any angle, the numeric builder
  \<^verbatim>\<open>create_rotation_matrix\<close> fails with the \<^verbatim>\<open>ValueError\<close> "Axis must be 1, 2, or 3"; so it
  does for axis 4. In the symbolic pipeline such an axis does not reach the builder:
  \<^verbatim>\<open>get_symbolic_dcm\<close> fails at once with the \<^verbatim>\<open>KeyError\<close> of the angle lookup, at the first
  axis of the sequence that is outside {1,2,3}.
\<close>

theorem invalid_axis_rejected:
  assumes "axis \<notin> {1, 2, 3}" and "set before \<subseteq> {1, 2, 3}"
  shows "create_rotation_matrix axis angle = Inl (ValueError ''Axis must be 1, 2, or 3'')
    \<and> get_symbolic_dcm (before @ axis # rest) = Inl (KeyError axis)"
  using assms by (simp add: create_rotation_matrix_def get_symbolic_dcm_first_invalid)

theorem invalid_axis_rejected_witness:
  "(4::int) \<notin> {1, 2, 3} \<and> set [3] \<subseteq> {1, 2, 3::int}
   \<and> create_rotation_matrix 4 0 = Inl (ValueError ''Axis must be 1, 2, or 3'')
   \<and> get_symbolic_dcm ([3] @ 4 # [1]) = Inl (KeyError 4)"
proof -
  have h1: "(4::int) \<notin> {1, 2, 3}" by simp
  have h2: "set [3] \<subseteq> {1, 2, 3::int}" by simp
  show ?thesis
    by (rule conjI [OF h1 conjI [OF h2 invalid_axis_rejected [OF h1 h2]]])
qed

section \<open>The sequence composer\<close>



text \<open>
  C4. Whenever the list of axes and the list of angles differ in length, \<^verbatim>\<open>euler_to_dcm\<close>
  fails with the \<^verbatim>\<open>ValueError\<close> of the length check and returns no matrix; this is so
  for 3 axes and 2 angles. (\<^verbatim>\<open>get_symbolic_dcm\<close> takes no list of angles.)
\<close>

theorem length_mismatch:
  assumes "length sequence \<noteq> length angles"
  shows "euler_to_dcm sequence angles =
    Inl (ValueError ''Number of axes must match number of angles'')"
  using assms by (simp add: euler_to_dcm_def)

theorem length_mismatch_witness:
  "length [3, 2, 1::int] \<noteq> length [1, 2::real]
   \<and> euler_to_dcm [3, 2, 1] [1, 2] =
       Inl (ValueError ''Number of axes must match number of angles'')"
  using length_mismatch [of "[3, 2, 1]" "[1, 2]"] by simp

text \<open>
  C9. When both the list of axes and the list of angles are empty, \<^verbatim>\<open>euler_to_dcm\<close> does
  not fail: it returns the 3x3 identity matrix.
\<close>

theorem empty_sequence_identity: "euler_to_dcm [] [] = Inr eye3"
  by (simp add: euler_to_dcm_def)

text \<open>
  C7. For every sequence of axes in {1,2,3} paired with angles that are all 0,
  \<^verbatim>\<open>euler_to_dcm\<close> returns exactly the 3x3 identity matrix.
\<close>

theorem zero_angles_identity:
  assumes "set sequence \<subseteq> {1, 2, 3}" and "length angles = length sequence"
    and "set angles \<subseteq> {0}"
  shows "euler_to_dcm sequence angles = Inr eye3"
proof -
  have "fst ` set (zip sequence angles) \<subseteq> {1, 2, 3}"
    using assms(1) fst_set_zip [of sequence angles] by blast
  moreover have "snd ` set (zip sequence angles) \<subseteq> {0}"
    using assms(3) by (auto dest: set_zip_rightD)
  ultimately show ?thesis
    using assms by (simp add: euler_to_dcm_compose compose_zero)
qed

theorem zero_angles_identity_witness:
  "set [3, 2, 1] \<subseteq> {1, 2, 3::int} \<and> length [0, 0, 0::real] = length [3, 2, 1::int]
   \<and> set [0, 0, 0] \<subseteq> {0::real}
   \<and> euler_to_dcm [3, 2, 1] [0, 0, 0] = Inr eye3"
  using zero_angles_identity [of "[3, 2, 1]" "[0, 0, 0]"] by simp

section \<open>Binary64 arithmetic\<close>








lemma float64_0 [simp]: "float64 0 = 0"
  by (simp add: float64_def)







section \<open>Orthogonality and the inverse\<close>

text \<open>
  C5. For every valid non-empty sequence, the product of the composed matrix with its own
  transpose is the 3x3 identity matrix: in the numeric pipeline over the real numbers,
  and in the symbolic pipeline as an identity that holds under every assignment of the
  symbols.
\<close>

theorem dcm_orthogonal:
  assumes "sequence \<noteq> []" and "set sequence \<subseteq> {1, 2, 3}"
    and "length angles = length sequence"
  shows "(\<exists>dcm. euler_to_dcm sequence angles = Inr dcm \<and> dot dcm (transpose dcm) = eye3)
    \<and> (\<exists>dcm. get_symbolic_dcm sequence = Inr dcm
          \<and> (\<forall>env. eval_matrix env (dot dcm (transpose dcm)) = eye3))"
proof -
  have "dot (compose cos sin (zip sequence angles))
          (transpose (compose cos sin (zip sequence angles))) = eye3"
    using orthogonal_compose [of "zip sequence angles"] by (simp add: orthogonal_def)
  then have numeric: "\<exists>dcm. euler_to_dcm sequence angles = Inr dcm \<and> dot dcm (transpose dcm) = eye3"
    using assms by (simp add: euler_to_dcm_compose)
  from assms obtain symbols where s: "symbolic_angles sequence = Inr symbols"
    using symbolic_angles_valid [of sequence] by auto
  let ?dcm = "compose Cos Sin (zip sequence symbols)"
  have g: "get_symbolic_dcm sequence = Inr ?dcm"
    using s assms by (simp add: get_symbolic_dcm_compose)
  have "eval_matrix env (dot ?dcm (transpose ?dcm)) = eye3" for env
    using orthogonal_compose [of "map (\<lambda>(axis, angle). (axis, eval env angle)) (zip sequence symbols)"]
    by (simp add: eval_matrix_dot eval_matrix_transpose eval_matrix_compose orthogonal_def)
  with g numeric show ?thesis by simp
qed

theorem dcm_orthogonal_witness:
  "[3, 1, 3] \<noteq> [] \<and> set [3, 1, 3] \<subseteq> {1, 2, 3::int}
   \<and> length [1, 2, 3::real] = length [3, 1, 3::int]
   \<and> (\<exists>dcm. euler_to_dcm [3, 1, 3] [1, 2, 3] = Inr dcm \<and> dot dcm (transpose dcm) = eye3)
   \<and> (\<exists>dcm. get_symbolic_dcm [3, 1, 3] = Inr dcm
          \<and> (\<forall>env. eval_matrix env (dot dcm (transpose dcm)) = eye3))"
  using dcm_orthogonal [of "[3, 1, 3]" "[1, 2, 3]"] by simp




section \<open>The angles of the symbolic pipeline\<close>

text \<open>
  C10. \<^verbatim>\<open>get_symbolic_dcm\<close> takes the axes only. Each angle is the symbol that the fixed
  dictionary gives for the axis (1 to phi, 2 to theta, 3 to psi), so two positions of a
  sequence that hold the same axis, as in the sequence 3-1-3, hold the same symbol.
\<close>

theorem symbolic_angles_from_axes:
  assumes "symbolic_angles sequence = Inr angles"
  shows "get_symbolic_dcm sequence = symbolic_loop eye3 (zip sequence angles)
    \<and> list_all2 (\<lambda>axis angle. angle_map axis = Some angle) sequence angles
    \<and> angle_map 1 = Some phi \<and> angle_map 2 = Some theta \<and> angle_map 3 = Some psi
    \<and> (\<forall>i < length sequence. \<forall>j < length sequence.
          sequence ! i = sequence ! j \<longrightarrow> angles ! i = angles ! j)"
proof -
  have related: "list_all2 (\<lambda>axis angle. angle_map axis = Some angle) sequence angles"
    using assms by (rule symbolic_angles_related)
  have dcm: "get_symbolic_dcm sequence = symbolic_loop eye3 (zip sequence angles)"
    using assms by (simp add: get_symbolic_dcm_def)
  have same: "\<forall>i < length sequence. \<forall>j < length sequence.
          sequence ! i = sequence ! j \<longrightarrow> angles ! i = angles ! j"
  proof (intro allI impI)
    fix i j
    assume "i < length sequence" and "j < length sequence" and "sequence ! i = sequence ! j"
    then show "angles ! i = angles ! j"
      by (rule list_all2_functional [OF related])
  qed
  show ?thesis
    by (intro conjI dcm related same angle_map_simps)
qed


theorem symbolic_angles_from_axes_witness:
  "symbolic_angles [3, 1, 3] = Inr [psi, phi, psi]
   \<and> get_symbolic_dcm [3, 1, 3] = symbolic_loop eye3 (zip [3, 1, 3] [psi, phi, psi])
   \<and> list_all2 (\<lambda>axis angle. angle_map axis = Some angle) [3, 1, 3] [psi, phi, psi]
   \<and> [3, 1, 3::int] ! 0 = [3, 1, 3] ! 2
   \<and> [psi, phi, psi] ! 0 = [psi, phi, psi] ! 2"
proof -
  have h: "symbolic_angles [3, 1, 3] = Inr [psi, phi, psi]"
    by (simp add: angle_map_simps)
  note t = symbolic_angles_from_axes [OF h]
  have p1: "get_symbolic_dcm [3, 1, 3] = symbolic_loop eye3 (zip [3, 1, 3] [psi, phi, psi])"
    using t by (rule conjunct1)
  have p2: "list_all2 (\<lambda>axis angle. angle_map axis = Some angle) [3, 1, 3] [psi, phi, psi]"
    using t by (rule conjunct1 [OF conjunct2])
  have p3: "[3, 1, 3::int] ! 0 = [3, 1, 3] ! 2"
    by simp
  have p4: "[psi, phi, psi] ! 0 = [psi, phi, psi] ! 2"
    by simp
  show ?thesis
    by (intro conjI h p1 p2 p3 p4)
qed

section \<open>The aircraft example\<close>

text \<open>
  The example cell of the notebook: the sequence 3-2-1 with yaw 30, pitch 15 and roll 10
  degrees. The cosines and sines of 30 and 15 degrees are expressions in square roots,
  which are enclosed by squaring; the sine of 10 degrees is the root in \<open>[0, 1/2]\<close> of
  \<open>3 s - 4 s^3 = 1/2\<close>, where that cubic is monotone.
\<close>

lemma sqrt2_bounds: "1.414213562 < sqrt 2" "sqrt 2 < 1.414213563"
  by (rule real_less_rsqrt, simp add: power2_eq_square) (rule real_less_lsqrt, simp_all add: power2_eq_square)

lemma sqrt3_bounds: "1.732050807 < sqrt 3" "sqrt 3 < 1.732050808"
  by (rule real_less_rsqrt, simp add: power2_eq_square) (rule real_less_lsqrt, simp_all add: power2_eq_square)

lemma sqrt6_bounds: "2.449489742 < sqrt 6" "sqrt 6 < 2.449489743"
  by (rule real_less_rsqrt, simp add: power2_eq_square) (rule real_less_lsqrt, simp_all add: power2_eq_square)

lemma sin_triple: "sin (3 * x) = 3 * sin x - 4 * sin x ^ 3" for x :: real
proof -
  have c: "cos x ^ 2 = 1 - sin x ^ 2"
    by (rule cos_squared_eq)
  have "sin (3 * x) = sin (2 * x + x)" by simp
  also have "\<dots> = 2 * sin x * cos x ^ 2 + (1 - 2 * sin x ^ 2) * sin x"
    by (simp only: sin_add sin_double cos_double_sin) (simp add: power2_eq_square)
  also have "\<dots> = 2 * sin x * (1 - sin x ^ 2) + (1 - 2 * sin x ^ 2) * sin x"
    by (simp only: c)
  also have "\<dots> = 3 * sin x - 4 * sin x ^ 3"
    by (simp add: algebra_simps power2_eq_square power3_eq_cube)
  finally show ?thesis .
qed

lemma radians_30: "radians 30 = pi / 6" by (simp add: radians_def)
lemma radians_15: "radians 15 = pi / 3 - pi / 4" by (simp add: radians_def)
lemma radians_10: "3 * radians 10 = pi / 6" by (simp add: radians_def)

lemma cos_15: "cos (radians 15) = (sqrt 6 + sqrt 2) / 4"
proof -
  have "sqrt 6 = sqrt 3 * sqrt 2" 
    using real_sqrt_mult [of 3 2] by simp
  moreover have "cos (radians 15) = cos (pi / 3) * cos (pi / 4) + sin (pi / 3) * sin (pi / 4)"
    by (simp only: radians_15 cos_diff)
  ultimately show ?thesis
    by (simp add: cos_60 sin_60 cos_45 sin_45 algebra_simps)
qed

lemma sin_15: "sin (radians 15) = (sqrt 6 - sqrt 2) / 4"
proof -
  have "sqrt 6 = sqrt 3 * sqrt 2" 
    using real_sqrt_mult [of 3 2] by simp
  moreover have "sin (radians 15) = sin (pi / 3) * cos (pi / 4) - cos (pi / 3) * sin (pi / 4)"
    by (simp only: radians_15 sin_diff)
  ultimately show ?thesis
    by (simp add: cos_60 sin_60 cos_45 sin_45 algebra_simps)
qed


lemma cubic_mono:
  fixes a b :: real
  assumes "0 \<le> a" and "a \<le> b" and "b \<le> 1 / 2"
  shows "3 * a - 4 * a ^ 3 \<le> 3 * b - 4 * b ^ 3"
proof -
  have "a * a \<le> 1 / 2 * (1 / 2)"
    by (rule mult_mono) (use assms in simp_all)
  moreover have "a * b \<le> 1 / 2 * (1 / 2)"
    by (rule mult_mono) (use assms in simp_all)
  moreover have "b * b \<le> 1 / 2 * (1 / 2)"
    by (rule mult_mono) (use assms in simp_all)
  ultimately have "0 \<le> 3 - 4 * (a * a + a * b + b * b)"
    by simp
  then have "0 \<le> (b - a) * (3 - 4 * (a * a + a * b + b * b))"
    using assms(2) by simp
  also have "\<dots> = (3 * b - 4 * b ^ 3) - (3 * a - 4 * a ^ 3)"
    by (simp add: algebra_simps power3_eq_cube)
  finally show ?thesis by simp
qed

lemma sin_10_range: "0 \<le> sin (radians 10)" "sin (radians 10) \<le> 1 / 2"
proof -
  show "0 \<le> sin (radians 10)"
    by (rule sin_ge_zero) (simp_all add: radians_def)
  have "sin (radians 10) \<le> sin (pi / 6)"
    by (rule sin_monotone_2pi_le) (simp_all add: radians_def)
  then show "sin (radians 10) \<le> 1 / 2"
    by (simp add: sin_30)
qed

lemma sin_10_cubic: "3 * sin (radians 10) - 4 * sin (radians 10) ^ 3 = 1 / 2"
  using sin_triple [of "radians 10"] by (simp only: radians_10 sin_30)

lemma sin_10_bounds: "0.173648177 < sin (radians 10)" "sin (radians 10) < 0.173648178"
proof -
  let ?s = "sin (radians 10)"
  show "0.173648177 < ?s"
  proof (rule ccontr)
    assume "\<not> 0.173648177 < ?s"
    then have "?s \<le> 0.173648177" by simp
    then have "3 * ?s - 4 * ?s ^ 3 \<le> 3 * 0.173648177 - 4 * 0.173648177 ^ 3"
      using sin_10_range(1) by (intro cubic_mono) simp_all
    then have "(1 / 2 :: real) \<le> 3 * 0.173648177 - 4 * 0.173648177 ^ 3"
      unfolding sin_10_cubic .
    then show False
      by (simp add: power3_eq_cube)
  qed
  show "?s < 0.173648178"
  proof (rule ccontr)
    assume "\<not> ?s < 0.173648178"
    then have "0.173648178 \<le> ?s" by simp
    then have "3 * 0.173648178 - 4 * 0.173648178 ^ 3 \<le> 3 * ?s - 4 * ?s ^ 3"
      using sin_10_range(2) by (intro cubic_mono) simp_all
    then have "3 * 0.173648178 - 4 * 0.173648178 ^ 3 \<le> (1 / 2 :: real)"
      unfolding sin_10_cubic .
    then show False
      by (simp add: power3_eq_cube)
  qed
qed

lemma cos_10_bounds: "0.984807752 < cos (radians 10)" "cos (radians 10) < 0.984807754"
proof -
  let ?s = "sin (radians 10)" and ?c = "cos (radians 10)"
  have c0: "0 \<le> ?c"
    by (rule cos_ge_zero) (simp_all add: radians_def)
  have sq: "?c * ?c = 1 - ?s * ?s"
    using cos_squared_eq [of "radians 10"] by (simp add: power2_eq_square)
  have "0.173648177 * 0.173648177 \<le> ?s * ?s"
    using sin_10_bounds(1) by (intro mult_mono) simp_all
  then have up: "?c * ?c \<le> 1 - 0.173648177 * 0.173648177"
    by (simp add: sq)
  have "?s * ?s \<le> 0.173648178 * 0.173648178"
    using sin_10_bounds(2) sin_10_range(1) by (intro mult_mono) simp_all
  then have lo: "1 - 0.173648178 * 0.173648178 \<le> ?c * ?c"
    by (simp add: sq)
  show "0.984807752 < ?c"
  proof (rule ccontr)
    assume "\<not> 0.984807752 < ?c"
    then have "?c \<le> 0.984807752" by simp
    then have "?c * ?c \<le> 0.984807752 * 0.984807752"
      using c0 by (intro mult_mono) simp_all
    with lo show False by simp
  qed
  show "?c < 0.984807754"
  proof (rule ccontr)
    assume "\<not> ?c < 0.984807754"
    then have "0.984807754 \<le> ?c" by simp
    then have "0.984807754 * 0.984807754 \<le> ?c * ?c"
      by (intro mult_mono) simp_all
    with up show False by simp
  qed
qed


lemma euler_321:
  "euler_to_dcm [3, 2, 1] [y, p, r] = Inr
    [[cos y * cos p, cos y * sin p * sin r - sin y * cos r, cos y * sin p * cos r + sin y * sin r],
     [sin y * cos p, sin y * sin p * sin r + cos y * cos r, sin y * sin p * cos r - cos y * sin r],
     [- sin p, cos p * sin r, cos p * cos r]]"
  by (simp add: euler_to_dcm_def create_rotation_matrix_def Let_def dot_rows eye3_def algebra_simps)

lemma interval_mult:
  fixes x y :: real
  assumes "a \<le> x" and "x \<le> b" and "c \<le> y" and "y \<le> d" and "0 \<le> a" and "0 \<le> c"
  shows "a * c \<le> x * y" and "x * y \<le> b * d"
proof -
  show "a * c \<le> x * y"
    by (rule mult_mono) (use assms in simp_all)
  show "x * y \<le> b * d"
    by (rule mult_mono) (use assms in simp_all)
qed

lemma entries_enclosure:
  fixes cy sy cp sp cr sr :: real
  assumes cy: "0.8660254035 \<le> cy" "cy \<le> 0.866025404"
    and sy: "0.5 \<le> sy" "sy \<le> 0.5"
    and cp: "0.965925826 \<le> cp" "cp \<le> 0.9659258265"
    and sp: "0.25881904475 \<le> sp" "sp \<le> 0.25881904525"
    and cr: "0.984807752 \<le> cr" "cr \<le> 0.984807754"
    and sr: "0.173648177 \<le> sr" "sr \<le> 0.173648178"
  shows "\<bar>cy * cp - 0.836516\<bar> < 5 / 10 ^ 7"
    and "\<bar>(cy * sp * sr - sy * cr) - (- 0.453482)\<bar> < 5 / 10 ^ 7"
    and "\<bar>(cy * sp * cr + sy * sr) - 0.307563\<bar> < 5 / 10 ^ 7"
    and "\<bar>sy * cp - 0.482963\<bar> < 5 / 10 ^ 7"
    and "\<bar>(sy * sp * sr + cy * cr) - 0.875340\<bar> < 5 / 10 ^ 7"
    and "\<bar>(sy * sp * cr - cy * sr) - (- 0.022940)\<bar> < 5 / 10 ^ 7"
    and "\<bar>- sp - (- 0.258819)\<bar> < 5 / 10 ^ 7"
    and "\<bar>cp * sr - 0.167731\<bar> < 5 / 10 ^ 7"
    and "\<bar>cp * cr - 0.951251\<bar> < 5 / 10 ^ 7"
proof -
  note cycp = interval_mult [OF cy cp]
  note sycp = interval_mult [OF sy cp]
  note cysp = interval_mult [OF cy sp]
  note sysp = interval_mult [OF sy sp]
  note cycr = interval_mult [OF cy cr]
  note sycr = interval_mult [OF sy cr]
  note cysr = interval_mult [OF cy sr]
  note sysr = interval_mult [OF sy sr]
  note cpsr = interval_mult [OF cp sr]
  note cpcr = interval_mult [OF cp cr]
  have cysp0: "0.8660254035 * 0.25881904475 \<le> cy * sp" "cy * sp \<le> 0.866025404 * 0.25881904525"
    using cysp by simp_all
  have sysp0: "0.5 * 0.25881904475 \<le> sy * sp" "sy * sp \<le> 0.5 * 0.25881904525"
    using sysp by simp_all
  note cyspsr = interval_mult [OF cysp0 sr]
  note cyspcr = interval_mult [OF cysp0 cr]
  note syspsr = interval_mult [OF sysp0 sr]
  note syspcr = interval_mult [OF sysp0 cr]
  show "\<bar>cy * cp - 0.836516\<bar> < 5 / 10 ^ 7"
    using cycp by (simp add: mult_ac)
  show "\<bar>(cy * sp * sr - sy * cr) - (- 0.453482)\<bar> < 5 / 10 ^ 7"
    using cyspsr sycr by (simp add: mult_ac)
  show "\<bar>(cy * sp * cr + sy * sr) - 0.307563\<bar> < 5 / 10 ^ 7"
    using cyspcr sysr by (simp add: mult_ac)
  show "\<bar>sy * cp - 0.482963\<bar> < 5 / 10 ^ 7"
    using sycp by (simp add: mult_ac)
  show "\<bar>(sy * sp * sr + cy * cr) - 0.875340\<bar> < 5 / 10 ^ 7"
    using syspsr cycr by (simp add: mult_ac)
  show "\<bar>(sy * sp * cr - cy * sr) - (- 0.022940)\<bar> < 5 / 10 ^ 7"
    using syspcr cysr by (simp add: mult_ac)
  show "\<bar>- sp - (- 0.258819)\<bar> < 5 / 10 ^ 7"
    using sp by (simp add: mult_ac)
  show "\<bar>cp * sr - 0.167731\<bar> < 5 / 10 ^ 7"
    using cpsr by (simp add: mult_ac)
  show "\<bar>cp * cr - 0.951251\<bar> < 5 / 10 ^ 7"
    using cpcr by (simp add: mult_ac)
qed


lemma cos_30_bounds: "0.8660254035 \<le> cos (radians 30)" "cos (radians 30) \<le> 0.866025404"
  using sqrt3_bounds by (simp_all add: radians_30 cos_30)

lemma sin_30_bounds: "0.5 \<le> sin (radians 30)" "sin (radians 30) \<le> 0.5"
  by (simp_all add: radians_30 sin_30)

lemma cos_15_bounds: "0.965925826 \<le> cos (radians 15)" "cos (radians 15) \<le> 0.9659258265"
  using sqrt2_bounds sqrt6_bounds by (simp_all add: cos_15)

lemma sin_15_bounds: "0.25881904475 \<le> sin (radians 15)" "sin (radians 15) \<le> 0.25881904525"
  using sqrt2_bounds sqrt6_bounds by (simp_all add: sin_15)

text \<open>
  C8. Composing the axis sequence [3,2,1] with the angles 30, 15 and 10 degrees, converted
  to radians, yields a matrix each of whose entries rounds, at six decimal places, to the
  entry of [[0.836516, -0.453482, 0.307563], [0.482963, 0.875340, -0.022940],
  [-0.258819, 0.167731, 0.951251]]. The entries are those of real arithmetic.
\<close>

theorem aircraft_example:
  "\<exists>dcm. euler_to_dcm [3, 2, 1] (map radians [30, 15, 10]) = Inr dcm
     \<and> agree6 dcm [[0.836516, - 0.453482, 0.307563],
                    [0.482963, 0.875340, - 0.022940],
                    [- 0.258819, 0.167731, 0.951251]]"
proof -
  note e = entries_enclosure [OF cos_30_bounds sin_30_bounds cos_15_bounds sin_15_bounds
      cos_10_bounds [THEN less_imp_le] sin_10_bounds [THEN less_imp_le]]
  have "agree6
     [[cos (radians 30) * cos (radians 15),
       cos (radians 30) * sin (radians 15) * sin (radians 10) - sin (radians 30) * cos (radians 10),
       cos (radians 30) * sin (radians 15) * cos (radians 10) + sin (radians 30) * sin (radians 10)],
      [sin (radians 30) * cos (radians 15),
       sin (radians 30) * sin (radians 15) * sin (radians 10) + cos (radians 30) * cos (radians 10),
       sin (radians 30) * sin (radians 15) * cos (radians 10) - cos (radians 30) * sin (radians 10)],
      [- sin (radians 15), cos (radians 15) * sin (radians 10), cos (radians 15) * cos (radians 10)]]
     [[0.836516, - 0.453482, 0.307563],
      [0.482963, 0.875340, - 0.022940],
      [- 0.258819, 0.167731, 0.951251]]"
    unfolding agree6_def by (intro list_all2_Cons [THEN iffD2] conjI e) simp_all
  then show ?thesis
    by (simp only: list.map euler_321) blast
qed

end
